theory Spec2Isabelle
  imports Main
begin

section \<open>Shared types of the raffle (lib/supabase)\<close>

text \<open>
  The enum \<open>State\<close> is a closed datatype. The two columns every participant looks at,
  \<open>state\<close> and \<open>winner\<close>, form the record \<open>RaffleView\<close>; it is the shape of the object
  passed to \<open>update({state, winner})\<close> and of the client's \<open>select("state, winner")\<close>.
  \<open>PublicData\<close> is the whole row: the same two fields plus \<open>id\<close> and \<open>created_at\<close>.
  \<open>winner?: string | null\<close> is a \<open>string option\<close>: \<open>None\<close> stands for \<open>null\<close> and for a
  missing field.
\<close>

datatype State = WAITING | DRAWING | DRAWN | ERROR

record RaffleView =
  state :: State
  winner :: "string option"

record PublicData = RaffleView +
  id' :: int
  created_at :: string

definition RAFFLE_ID :: int where
  "RAFFLE_ID = 1"

definition RAFFLE_ROOM_CHANNEL :: string where
  "RAFFLE_ROOM_CHANNEL = ''raffle-room-1''"

record PresencePayload =
  user :: string
  online_at :: string

record PresenceStateForUser = PresencePayload +
  presence_ref :: string

text \<open>
  \<open>RealtimePresenceState\<close> is an object from presence keys to arrays of presences. The
  order in which \<open>Object.values\<close> enumerates it matters for the derived list of users, so
  it is an association list in that order.
\<close>

type_synonym RealtimePresenceState = "(string \<times> PresenceStateForUser list) list"

section \<open>The winner selector: \<open>pickRandomElement\<close>\<close>

text \<open>
  \<open>Math.random()\<close> is an input of the model. Its result is an IEEE double in \<open>[0, 1)\<close>;
  every such double is \<open>mant / 2 ^ ex\<close> for a significand \<open>mant < 2 ^ 53\<close> and an exponent
  \<open>ex \<le> 1074\<close>, and every such pair below one is a double. \<open>Math_random_ok\<close> is that
  contract of \<open>Math.random\<close>.
\<close>

record double01 =
  mant :: nat
  ex :: nat

definition Math_random_ok :: "double01 \<Rightarrow> bool" where
  "Math_random_ok r = (mant r < 2 ^ 53 \<and> ex r \<le> 1074 \<and> mant r < 2 ^ ex r)"

text \<open>The number of binary digits of a natural number.\<close>

fun bit_length :: "nat \<Rightarrow> nat" where
  "bit_length k = (if k = 0 then 0 else Suc (bit_length (k div 2)))"

declare bit_length.simps [simp del]

text \<open>
  The double product \<open>Math.random() * arr.length\<close>. The exact product of \<open>mant / 2 ^ ex\<close>
  and the length \<open>n\<close> is \<open>k / 2 ^ ex\<close> with \<open>k = mant * n\<close>; the machine rounds it to the
  nearest number with 53 significant bits, a tie going to the even significand.
  \<open>round53 k\<close> is that rounding on the numerator: up to 53 bits nothing is lost, beyond
  that the lowest \<open>s\<close> bits are rounded away. (An array length is below \<open>2 ^ 32\<close>, so it
  is itself a double and the product cannot overflow.)
\<close>

definition round53 :: "nat \<Rightarrow> nat" where
  "round53 k =
     (if k < 2 ^ 53 then k
      else let s = bit_length k - 53;
               q = k div 2 ^ s;
               rest = k mod 2 ^ s;
               half = 2 ^ (s - 1)
           in (if half < rest \<or> (rest = half \<and> odd q) then q + 1 else q) * 2 ^ s)"

text \<open>\<open>Math.floor(Math.random() * arr.length)\<close>: the integer part of the rounded product.\<close>

definition randomIndex :: "double01 \<Rightarrow> nat \<Rightarrow> nat" where
  "randomIndex r n = round53 (mant r * n) div 2 ^ ex r"

text \<open>
  The argument is optional because the function tests \<open>!arr\<close> first: \<open>None\<close> is a \<open>null\<close>
  or \<open>undefined\<close> argument. The result \<open>None\<close> is \<open>undefined\<close>. Reading a JavaScript array
  outside its bounds gives \<open>undefined\<close>, which the last branch writes out.
\<close>

definition pickRandomElement :: "double01 \<Rightarrow> 'a list option \<Rightarrow> 'a option" where
  "pickRandomElement r arr =
     (case arr of
        None \<Rightarrow> None
      | Some xs \<Rightarrow>
          if length xs = 0 then None
          else let i = randomIndex r (length xs)
               in if i < length xs then Some (xs ! i) else None)"

section \<open>The admin page (app/admin/page.tsx)\<close>

text \<open>
  The component's \<open>useState\<close> cells and its channel reference. \<open>channelRef\<close> holds the
  topic of the channel once \<open>setupAdminSubscription\<close> has created it and registered the
  listeners on it; it is \<open>None\<close> (\<open>null\<close>) before.
\<close>

record AdminPage =
  raffleData :: "PublicData option"
  connectedUsers :: RealtimePresenceState
  isLoading :: bool
  error :: "string option"
  channelRef :: "string option"

definition AdminPage_mounted :: AdminPage where
  "AdminPage_mounted =
     \<lparr>raffleData = None, connectedUsers = [], isLoading = False, error = None,
      channelRef = None\<rparr>"

text \<open>The values a render derives from the cells; the handlers of that render close over them.\<close>

definition currentState :: "AdminPage \<Rightarrow> State" where
  "currentState a = (case raffleData a of None \<Rightarrow> WAITING | Some d \<Rightarrow> state d)"

definition currentWinner :: "AdminPage \<Rightarrow> string option" where
  "currentWinner a = (case raffleData a of None \<Rightarrow> None | Some d \<Rightarrow> winner d)"

definition userList :: "AdminPage \<Rightarrow> string list" where
  "userList a = map user (concat (map snd (connectedUsers a)))"

text \<open>
  A caught error is known by its \<open>message\<close> (\<open>None\<close> when it has none);
  \<open>err?.message || 'Unknown error'\<close> also replaces an empty message.
\<close>

type_synonym js_error = "string option"

definition error_message :: "js_error \<Rightarrow> string" where
  "error_message err =
     (case err of None \<Rightarrow> ''Unknown error''
      | Some m \<Rightarrow> if m = [] then ''Unknown error'' else m)"

text \<open>The local placeholder row; \<open>now\<close> is \<open>new Date().toISOString()\<close>.\<close>

definition error_placeholder :: "string \<Rightarrow> PublicData" where
  "error_placeholder now =
     \<lparr>state = ERROR, winner = None, id' = RAFFLE_ID, created_at = now\<rparr>"

subsection \<open>The transition handlers\<close>

text \<open>
  A handler runs up to its \<open>await\<close> and is resumed with the store's answer. The first
  part returns what it did about the store: \<open>Rejected\<close> is the guard's early return,
  \<open>Aborted\<close> the early return of \<open>handlePickWinner\<close> after its error message, and
  \<open>Issued p\<close> the call \<open>update(p).eq("id", RAFFLE_ID)\<close> on \<open>public_data\<close>.

  Every handler takes two pages: \<open>rendered\<close>, the cells as they were in the render that
  created the handler (its closure reads \<open>isLoading\<close>, \<open>currentState\<close> and \<open>userList\<close>
  from there), and \<open>live\<close>, the cells at the time it runs, which its setters change.
\<close>

datatype request = Rejected | Aborted | Issued RaffleView

type_synonym update_response = "js_error option"

definition handleStartDraw :: "AdminPage \<Rightarrow> AdminPage \<Rightarrow> request \<times> AdminPage" where
  "handleStartDraw rendered live =
     (if isLoading rendered \<or> currentState rendered \<noteq> WAITING then (Rejected, live)
      else (Issued \<lparr>state = DRAWING, winner = None\<rparr>,
            live\<lparr>isLoading := True, error := None\<rparr>))"

definition handleStartDraw_resumed :: "update_response \<Rightarrow> AdminPage \<Rightarrow> AdminPage" where
  "handleStartDraw_resumed updateError live =
     (case updateError of
        None \<Rightarrow> live
      | Some err \<Rightarrow> live\<lparr>error := Some (''Failed to start draw: '' @ error_message err)\<rparr>)
     \<lparr>isLoading := False\<rparr>"

definition handlePickWinner ::
    "AdminPage \<Rightarrow> double01 \<Rightarrow> AdminPage \<Rightarrow> request \<times> AdminPage" where
  "handlePickWinner rendered r live =
     (if isLoading rendered \<or> currentState rendered \<noteq> DRAWING \<or> length (userList rendered) = 0
      then (Rejected, live)
      else
        let live1 = live\<lparr>isLoading := True, error := None\<rparr>;
            no_users = live1\<lparr>error := Some ''No users connected to pick a winner from.'',
                             isLoading := False\<rparr>
        in case pickRandomElement r (Some (userList rendered)) of
             None \<Rightarrow> (Aborted, no_users)
           | Some winnerId \<Rightarrow>
               if winnerId = [] then (Aborted, no_users)
               else (Issued \<lparr>state = DRAWN, winner = Some winnerId\<rparr>, live1))"

definition handlePickWinner_resumed :: "update_response \<Rightarrow> AdminPage \<Rightarrow> AdminPage" where
  "handlePickWinner_resumed updateError live =
     (case updateError of
        None \<Rightarrow> live
      | Some err \<Rightarrow> live\<lparr>error := Some (''Failed to pick winner: '' @ error_message err)\<rparr>)
     \<lparr>isLoading := False\<rparr>"

definition handleResetRaffle :: "AdminPage \<Rightarrow> AdminPage \<Rightarrow> request \<times> AdminPage" where
  "handleResetRaffle rendered live =
     (if isLoading rendered then (Rejected, live)
      else (Issued \<lparr>state = WAITING, winner = None\<rparr>,
            live\<lparr>isLoading := True, error := None\<rparr>))"

definition handleResetRaffle_resumed :: "update_response \<Rightarrow> AdminPage \<Rightarrow> AdminPage" where
  "handleResetRaffle_resumed updateError live =
     (case updateError of
        None \<Rightarrow> live
      | Some err \<Rightarrow> live\<lparr>error := Some (''Failed to reset raffle: '' @ error_message err)\<rparr>)
     \<lparr>isLoading := False\<rparr>"

text \<open>The patches a request sends to the store.\<close>

definition store_writes :: "request \<Rightarrow> RaffleView list" where
  "store_writes req = (case req of Issued p \<Rightarrow> [p] | _ \<Rightarrow> [])"

text \<open>The invariant of the raffle record: a winner is set exactly in the state \<open>DRAWN\<close>.\<close>

definition record_invariant :: "RaffleView \<Rightarrow> bool" where
  "record_invariant v = ((winner v \<noteq> None) = (state v = DRAWN))"

subsection \<open>Setup: the initial fetch and the subscriptions\<close>

text \<open>
  The answer of \<open>from("public_data").select("*").eq("id", RAFFLE_ID).single()\<close>, as the
  code destructures it: \<open>{data, error: fetchError}\<close>.
\<close>

record fetch_response =
  data :: "PublicData option"
  fetchError :: "js_error option"

text \<open>\<open>setupAdminSubscription\<close> up to its \<open>await\<close>.\<close>

definition setupAdminSubscription :: "AdminPage \<Rightarrow> AdminPage" where
  "setupAdminSubscription live = live\<lparr>error := None, isLoading := True\<rparr>"

text \<open>The \<open>catch\<close> block: message, placeholder row, loading off, and \<open>return\<close>.\<close>

definition setup_catch :: "string \<Rightarrow> js_error \<Rightarrow> AdminPage \<Rightarrow> AdminPage" where
  "setup_catch now err live =
     live\<lparr>error := Some (''Failed to fetch initial state: '' @ error_message err),
          raffleData := Some (error_placeholder now),
          isLoading := False\<rparr>"

text \<open>
  \<open>setupAdminSubscription\<close> after the fetch has answered. On the \<open>try\<close> path the row is
  stored, the channel is created and kept in \<open>channelRef\<close>, and the listeners for
  database changes, presence and status are registered on it. On the \<open>catch\<close> path the
  function returns before any of that. (The \<open>finally\<close> block only starts a timer, which
  belongs to the session below.)
\<close>

definition setupAdminSubscription_resumed ::
    "string \<Rightarrow> fetch_response \<Rightarrow> AdminPage \<Rightarrow> AdminPage" where
  "setupAdminSubscription_resumed now resp live =
     (case fetchError resp of
        Some err \<Rightarrow> setup_catch now err live
      | None \<Rightarrow>
          (case data resp of
             None \<Rightarrow> setup_catch now (Some ''No raffle data found for ID 1.'') live
           | Some d \<Rightarrow> live\<lparr>raffleData := Some d, channelRef := Some RAFFLE_ROOM_CHANNEL\<rparr>))"

subsection \<open>The listeners\<close>

text \<open>A \<open>postgres_changes\<close> payload: its \<open>eventType\<close> and, for the first two, its \<open>new\<close> row.\<close>

datatype change = INSERT PublicData | UPDATE PublicData | DELETE

definition onDbChange :: "string \<Rightarrow> change \<Rightarrow> AdminPage \<Rightarrow> AdminPage" where
  "onDbChange now payload live =
     (let live1 = live\<lparr>error := None\<rparr>
      in case payload of
           UPDATE new \<Rightarrow> live1\<lparr>raffleData := Some new\<rparr>
         | INSERT new \<Rightarrow> live1\<lparr>raffleData := Some new\<rparr>
         | DELETE \<Rightarrow>
             live1\<lparr>error := Some ''Raffle data (ID: 1) was deleted.'',
                   raffleData := Some (error_placeholder now)\<rparr>)"

definition onPresenceSync :: "RealtimePresenceState \<Rightarrow> AdminPage \<Rightarrow> AdminPage" where
  "onPresenceSync presenceState live = live\<lparr>connectedUsers := presenceState\<rparr>"

definition onStatus :: "string \<Rightarrow> AdminPage \<Rightarrow> AdminPage" where
  "onStatus status live =
     (if take 13 status = ''CHANNEL_ERROR''
      then live\<lparr>error := Some (''Channel Error: '' @ status @
                                 ''. Realtime updates might be interrupted.'')\<rparr>
      else if status = ''SUBSCRIBED'' then live\<lparr>error := None\<rparr>
      else live)"

subsection \<open>One admin session as a sequence of events\<close>

text \<open>
  The page runs on one thread: each callback runs to its end or to its \<open>await\<close>, and the
  page is rendered again before the next one starts, so a clicked handler is the one of
  the current cells. Besides the cells a session has: whether the initial fetch is
  awaited, how many timers \<open>setTimeout(() => setIsLoading(false), 100)\<close> are pending, and
  the updates sent to the store and not yet answered, oldest first, each with the
  handler that awaits it.
\<close>

datatype action = StartDraw | PickWinner double01 | ResetRaffle

record session =
  page :: AdminPage
  fetching :: bool
  timers :: nat
  in_flight :: "(action \<times> RaffleView) list"

datatype event =
    Mount
  | Fetched string fetch_response
  | TimerFired
  | Click action
  | Answered update_response
  | DbChange string change
  | PresenceSync RealtimePresenceState
  | ChannelStatus string

definition session_mounted :: session where
  "session_mounted = \<lparr>page = AdminPage_mounted, fetching = False, timers = 0, in_flight = []\<rparr>"

fun handler :: "action \<Rightarrow> AdminPage \<Rightarrow> AdminPage \<Rightarrow> request \<times> AdminPage" where
  "handler StartDraw rendered live = handleStartDraw rendered live"
| "handler (PickWinner r) rendered live = handlePickWinner rendered r live"
| "handler ResetRaffle rendered live = handleResetRaffle rendered live"

fun handler_resumed :: "action \<Rightarrow> update_response \<Rightarrow> AdminPage \<Rightarrow> AdminPage" where
  "handler_resumed StartDraw updateError live = handleStartDraw_resumed updateError live"
| "handler_resumed (PickWinner r) updateError live = handlePickWinner_resumed updateError live"
| "handler_resumed ResetRaffle updateError live = handleResetRaffle_resumed updateError live"

text \<open>
  The bus calls a listener only if one was registered, that is if setup got as far as
  creating the channel. A timer that fires runs \<open>setIsLoading(false)\<close>. \<open>Answered\<close>
  resumes the handler of the oldest update in flight.
\<close>

fun step :: "event \<Rightarrow> session \<Rightarrow> session" where
  "step Mount s = s\<lparr>page := setupAdminSubscription (page s), fetching := True\<rparr>"
| "step (Fetched now resp) s =
     (if fetching s
      then s\<lparr>page := setupAdminSubscription_resumed now resp (page s),
             fetching := False, timers := Suc (timers s)\<rparr>
      else s)"
| "step TimerFired s =
     (if timers s = 0 then s
      else s\<lparr>page := (page s)\<lparr>isLoading := False\<rparr>, timers := timers s - 1\<rparr>)"
| "step (Click a) s =
     (case handler a (page s) (page s) of
        (Issued p, live) \<Rightarrow> s\<lparr>page := live, in_flight := in_flight s @ [(a, p)]\<rparr>
      | (_, live) \<Rightarrow> s\<lparr>page := live\<rparr>)"
| "step (Answered updateError) s =
     (case in_flight s of
        [] \<Rightarrow> s
      | (a, p) # rest \<Rightarrow> s\<lparr>page := handler_resumed a updateError (page s), in_flight := rest\<rparr>)"
| "step (DbChange now payload) s =
     (if channelRef (page s) = None then s else s\<lparr>page := onDbChange now payload (page s)\<rparr>)"
| "step (PresenceSync presenceState) s =
     (if channelRef (page s) = None then s else s\<lparr>page := onPresenceSync presenceState (page s)\<rparr>)"
| "step (ChannelStatus status) s =
     (if channelRef (page s) = None then s else s\<lparr>page := onStatus status (page s)\<rparr>)"

fun run :: "event list \<Rightarrow> session \<Rightarrow> session" where
  "run [] s = s"
| "run (e # es) s = run es (step e s)"

text \<open>
  Single flight: at most one update awaits the store, and while one does the page shows
  loading. It is stated for sessions whose initial fetch is over and whose timer has
  fired.
\<close>

definition single_flight :: "session \<Rightarrow> bool" where
  "single_flight s =
     (timers s = 0 \<and> \<not> fetching s \<and>
      (in_flight s = [] \<or> (length (in_flight s) = 1 \<and> isLoading (page s))))"

section \<open>The client page (app/page.tsx)\<close>

text \<open>
  The client keeps \<open>state\<close> and \<open>winner\<close> in two cells of their own, next to its
  \<open>userId\<close>. Its change listener calls the two setters one after the other, inside one
  callback. The page is a client component of the app router, which runs on React 18:
  updates made inside one callback are batched and rendered once the callback has
  returned. The views anyone can observe are therefore the cells between callbacks;
  \<open>Home_views\<close> lists them for a sequence of delivered \<open>UPDATE\<close> payloads, and
  \<open>AdminPage_views\<close> does the same for the admin page, whose listener replaces the whole
  row in one \<open>setRaffleData\<close>.
\<close>

record Home = RaffleView +
  userId :: string

definition Home_mounted :: "string \<Rightarrow> Home" where
  "Home_mounted uid = \<lparr>state = WAITING, winner = None, userId = uid\<rparr>"

definition setState :: "State \<Rightarrow> Home \<Rightarrow> Home" where
  "setState newState h = h\<lparr>state := newState\<rparr>"

definition setWinner :: "string option \<Rightarrow> Home \<Rightarrow> Home" where
  "setWinner newWinner h = h\<lparr>winner := newWinner\<rparr>"

definition Home_onDbChange :: "PublicData \<Rightarrow> Home \<Rightarrow> Home" where
  "Home_onDbChange new h = setWinner (winner new) (setState (state new) h)"

fun Home_views :: "PublicData list \<Rightarrow> Home \<Rightarrow> Home list" where
  "Home_views [] h = []"
| "Home_views (new # rest) h = Home_onDbChange new h # Home_views rest (Home_onDbChange new h)"

fun AdminPage_views :: "(string \<times> change) list \<Rightarrow> AdminPage \<Rightarrow> AdminPage list" where
  "AdminPage_views [] a = []"
| "AdminPage_views ((now, payload) # rest) a =
     onDbChange now payload a # AdminPage_views rest (onDbChange now payload a)"

section \<open>Example pages\<close>

text \<open>Pages used as concrete inputs: a fetched row in a given state, with given presences.\<close>

definition page_with :: "State \<Rightarrow> string option \<Rightarrow> string list \<Rightarrow> AdminPage" where
  "page_with s w users =
     AdminPage_mounted
       \<lparr>raffleData := Some \<lparr>state = s, winner = w, id' = RAFFLE_ID, created_at = ''2025-04-24''\<rparr>,
        connectedUsers :=
          map (\<lambda>u. (u, [\<lparr>user = u, online_at = ''2025-04-24'', presence_ref = ''ref''\<rparr>])) users\<rparr>"

section \<open>The rounded product stays below the length\<close>

lemma bit_length_upper: "k < 2 ^ bit_length k"
proof (induction k rule: bit_length.induct)
  case (1 k)
  show ?case
  proof (cases "k = 0")
    case True
    then show ?thesis by simp
  next
    case False
    with 1 have "k div 2 < 2 ^ bit_length (k div 2)" by simp
    then have "k < 2 * 2 ^ bit_length (k div 2)" by linarith
    moreover have "bit_length k = Suc (bit_length (k div 2))"
      using False by (simp add: bit_length.simps)
    ultimately show ?thesis by simp
  qed
qed

lemma bit_length_lower: "k \<noteq> 0 \<Longrightarrow> 2 ^ (bit_length k - 1) \<le> k"
proof (induction k rule: bit_length.induct)
  case (1 k)
  have eq: "bit_length k = Suc (bit_length (k div 2))"
    using "1.prems" by (simp add: bit_length.simps)
  show ?case
  proof (cases "k div 2 = 0")
    case True
    then have "bit_length (k div 2) = 0" by (simp add: bit_length.simps)
    with eq "1.prems" show ?thesis by simp
  next
    case False
    with 1 have ih: "2 ^ (bit_length (k div 2) - 1) \<le> k div 2" by simp
    from False obtain b where b: "bit_length (k div 2) = Suc b"
      by (cases "bit_length (k div 2)") (simp_all add: bit_length.simps)
    from ih b have "(2::nat) ^ b \<le> k div 2" by simp
    then have "2 * (2::nat) ^ b \<le> k" by linarith
    with eq b show ?thesis by simp
  qed
qed

lemma bit_length_gt53:
  assumes "2 ^ 53 \<le> k"
  shows "53 < bit_length k"
proof -
  have "(2::nat) ^ 53 < 2 ^ bit_length k"
    using assms bit_length_upper [of k] by linarith
  then show ?thesis
    by (rule power_less_imp_less_exp [rotated]) simp
qed

text \<open>Rounding to 53 bits moves a number up by at most half a unit in the last place.\<close>

lemma round53_upper:
  assumes "2 ^ 53 \<le> k"
  shows "round53 k \<le> k + 2 ^ (bit_length k - 54)"
proof -
  define s where "s = bit_length k - 53"
  define q where "q = k div 2 ^ s"
  define rest where "rest = k mod 2 ^ s"
  define half where "half = (2::nat) ^ (s - 1)"
  have s_pos: "0 < s" using bit_length_gt53 [OF assms] by (simp add: s_def)
  then have two_half: "(2::nat) ^ s = 2 * half"
    by (cases s) (simp_all add: half_def)
  have half_eq: "half = 2 ^ (bit_length k - 54)"
    by (simp add: half_def s_def)
  have split: "q * 2 ^ s + rest = k"
    unfolding q_def rest_def by (rule div_mult_mod_eq)
  have r: "round53 k = (if half < rest \<or> (rest = half \<and> odd q) then q + 1 else q) * 2 ^ s"
    using assms by (simp add: round53_def Let_def s_def q_def rest_def half_def)
  show ?thesis
  proof (cases "half < rest \<or> (rest = half \<and> odd q)")
    case True
    then have "half \<le> rest" by auto
    moreover from True r have "round53 k = q * 2 ^ s + 2 ^ s" by (simp add: algebra_simps)
    ultimately show ?thesis using split two_half half_eq by linarith
  next
    case False
    with r have "round53 k = q * 2 ^ s" by simp
    then show ?thesis using split by linarith
  qed
qed

text \<open>
  The heart of the matter: the largest double below one is \<open>1 - 2 ^ -53\<close>, the exact
  product is then at least \<open>n * 2 ^ -53\<close> short of \<open>n\<close>, and that gap is more than half of
  the last place of the product, so rounding cannot reach \<open>n\<close>.
\<close>

lemma round53_product_below:
  assumes m: "m < 2 ^ 53" and me: "m < 2 ^ e" and n: "0 < n"
  shows "round53 (m * n) < n * 2 ^ e"
proof -
  have top: "m * n + n \<le> n * 2 ^ e"
  proof -
    from me have "Suc m \<le> 2 ^ e" by simp
    then have "Suc m * n \<le> 2 ^ e * n" by (rule mult_le_mono1)
    then show ?thesis by (simp add: algebra_simps)
  qed
  show ?thesis
  proof (cases "m * n < 2 ^ 53")
    case True
    then have "round53 (m * n) = m * n" by (simp add: round53_def)
    with top n show ?thesis by linarith
  next
    case False
    then have big: "2 ^ 53 \<le> m * n" by simp
    have nz: "m * n \<noteq> 0"
    proof
      assume "m * n = 0"
      with big show False by simp
    qed
    define b where "b = bit_length (m * n)"
    have b53: "53 < b" unfolding b_def by (rule bit_length_gt53 [OF big])
    have "(2::nat) ^ (b - 1) \<le> m * n"
      unfolding b_def by (rule bit_length_lower [OF nz])
    also have "m * n < 2 ^ 53 * n" using m n by simp
    finally have "(2::nat) ^ (b - 1) < 2 ^ 53 * n" .
    moreover from b53 have "b - 1 = 53 + (b - 54)" by simp
    then have "(2::nat) ^ (b - 1) = 2 ^ 53 * 2 ^ (b - 54)"
      by (simp only: power_add)
    ultimately have "(2::nat) ^ 53 * 2 ^ (b - 54) < 2 ^ 53 * n" by simp
    then have small: "(2::nat) ^ (b - 54) < n" by simp
    have "round53 (m * n) \<le> m * n + 2 ^ (b - 54)"
      unfolding b_def by (rule round53_upper [OF big])
    with small top show ?thesis by linarith
  qed
qed

lemma randomIndex_in_bounds:
  assumes "Math_random_ok r" and "0 < n"
  shows "randomIndex r n < n"
proof -
  from assms have "round53 (mant r * n) < n * 2 ^ ex r"
    by (intro round53_product_below) (simp_all add: Math_random_ok_def)
  then show ?thesis
    by (simp add: randomIndex_def less_mult_imp_div_less)
qed

lemma pickRandomElement_reads:
  assumes "Math_random_ok r" and "xs \<noteq> []"
  shows "pickRandomElement r (Some xs) = Some (xs ! randomIndex r (length xs))"
  using assms randomIndex_in_bounds [of r "length xs"]
  by (simp add: pickRandomElement_def)

section \<open>Facts about the handlers\<close>

lemma page_with_simps:
  "isLoading (page_with s w users) = False"
  "currentState (page_with s w users) = s"
  "userList (page_with s w users) = users"
  by (simp_all add: page_with_def AdminPage_mounted_def currentState_def userList_def
      comp_def map_idI)

text \<open>
  Once the guard of \<open>handlePickWinner\<close> has passed, the pick is an element of the list the
  closure holds. The handler then tests \<open>!winnerId\<close>, which is true of the empty string
  too: an empty identifier takes the branch written for "no users".
\<close>

lemma handlePickWinner_picks:
  assumes "\<not> isLoading rendered" and "currentState rendered = DRAWING"
    and "userList rendered \<noteq> []" and "Math_random_ok r"
  shows "\<exists>w. w \<in> set (userList rendered) \<and>
           pickRandomElement r (Some (userList rendered)) = Some w \<and>
           handlePickWinner rendered r live =
             (if w = []
              then (Aborted, live\<lparr>isLoading := True, error := None\<rparr>
                      \<lparr>error := Some ''No users connected to pick a winner from.'',
                       isLoading := False\<rparr>)
              else (Issued \<lparr>state = DRAWN, winner = Some w\<rparr>,
                    live\<lparr>isLoading := True, error := None\<rparr>))"
proof -
  define w where "w = userList rendered ! randomIndex r (length (userList rendered))"
  from assms(3,4) have "randomIndex r (length (userList rendered)) < length (userList rendered)"
    by (simp add: randomIndex_in_bounds)
  then have mem: "w \<in> set (userList rendered)"
    unfolding w_def by (rule nth_mem)
  have pick: "pickRandomElement r (Some (userList rendered)) = Some w"
    unfolding w_def by (rule pickRandomElement_reads [OF assms(4,3)])
  with assms(1-3) mem show ?thesis
    by (intro exI [of _ w]) (simp add: handlePickWinner_def Let_def)
qed

text \<open>
  The list the guard tested is the list the pick indexes: whatever a presence sync has
  put into the live cell since the render, the handler selects from the \<open>userList\<close> of its
  own render, and a non-empty selected identifier is written as the winner.
\<close>

lemma handlePickWinner_snapshot:
  assumes "\<not> isLoading rendered" and "currentState rendered = DRAWING"
    and "length (userList rendered) \<noteq> 0" and "Math_random_ok r"
  shows "\<exists>w. w \<in> set (userList rendered) \<and>
           pickRandomElement r (Some (userList rendered)) = Some w \<and>
           fst (handlePickWinner rendered r (onPresenceSync presenceState live)) =
             fst (handlePickWinner rendered r live) \<and>
           (w \<noteq> [] \<longrightarrow>
              fst (handlePickWinner rendered r (onPresenceSync presenceState live)) =
                Issued \<lparr>state = DRAWN, winner = Some w\<rparr>)"
proof -
  from assms(3) have ne: "userList rendered \<noteq> []" by simp
  obtain w where w: "w \<in> set (userList rendered)"
      "pickRandomElement r (Some (userList rendered)) = Some w"
    using handlePickWinner_picks [OF assms(1,2) ne assms(4)] by blast
  have "fst (handlePickWinner rendered r l) =
      (if w = [] then Aborted else Issued \<lparr>state = DRAWN, winner = Some w\<rparr>)" for l
    using assms(1,2) ne w(2) by (simp add: handlePickWinner_def Let_def)
  with w show ?thesis by (intro exI [of _ w]) simp
qed

lemma handlePickWinner_snapshot_example:
  "userList (onPresenceSync [] (page_with DRAWING None [''a'', ''b'', ''c''])) = [] \<and>
   fst (handlePickWinner (page_with DRAWING None [''a'', ''b'', ''c'']) \<lparr>mant = 1, ex = 1\<rparr>
     (onPresenceSync [] (page_with DRAWING None [''a'', ''b'', ''c'']))) =
     Issued \<lparr>state = DRAWN, winner = Some ''b''\<rparr>"
proof -
  have pick: "pickRandomElement \<lparr>mant = 1, ex = 1\<rparr> (Some [''a'', ''b'', ''c'']) = Some ''b''"
    by (simp add: pickRandomElement_def randomIndex_def round53_def)
  have ok: "Math_random_ok \<lparr>mant = 1, ex = 1\<rparr>"
    by (simp add: Math_random_ok_def)
  have gone: "userList (onPresenceSync [] (page_with DRAWING None [''a'', ''b'', ''c''])) = []"
    by (simp add: onPresenceSync_def userList_def)
  show ?thesis
    using handlePickWinner_snapshot [of "page_with DRAWING None [''a'', ''b'', ''c'']"
        "\<lparr>mant = 1, ex = 1\<rparr>" "[]" "page_with DRAWING None [''a'', ''b'', ''c'']"]
      pick ok gone
    by (auto simp add: page_with_simps)
qed

lemma setup_failed_page:
  assumes "data resp = None \<or> fetchError resp \<noteq> None"
  shows "\<exists>msg. setupAdminSubscription_resumed now resp live =
           live\<lparr>error := Some msg, raffleData := Some (error_placeholder now), isLoading := False\<rparr>"
  using assms
  by (auto simp add: setupAdminSubscription_resumed_def setup_catch_def split: option.split)

text \<open>The guard all three handlers open with: a render that shows loading sends nothing.\<close>

lemma loading_rejects_every_request:
  assumes "isLoading rendered"
  shows "handler a rendered live = (Rejected, live)"
  using assms
  by (cases a) (simp_all add: handleStartDraw_def handlePickWinner_def handleResetRaffle_def)

text \<open>
  With no timer pending the guard does give single flight: every event but a new mount
  keeps it. What can break it is the timer of the initial fetch alone.
\<close>

lemma onDbChange_isLoading: "isLoading (onDbChange now payload live) = isLoading live"
  by (cases payload) (simp_all add: onDbChange_def)

lemma onStatus_isLoading: "isLoading (onStatus status live) = isLoading live"
  by (simp add: onStatus_def)

lemma handler_cases:
  "handler a rendered live = (Rejected, live) \<or>
   (\<exists>msg. handler a rendered live = (Aborted, live\<lparr>isLoading := True, error := None\<rparr>
       \<lparr>error := Some msg, isLoading := False\<rparr>)) \<or>
   (\<not> isLoading rendered \<and>
    (\<exists>p. handler a rendered live = (Issued p, live\<lparr>isLoading := True, error := None\<rparr>)))"
  by (cases a)
    (auto simp add: handleStartDraw_def handlePickWinner_def handleResetRaffle_def Let_def
      split: option.split)

lemma single_flight_step:
  assumes "single_flight s" and "e \<noteq> Mount"
  shows "single_flight (step e s)"
proof (cases e)
  case Mount
  with assms(2) show ?thesis by simp
next
  case (Fetched now resp)
  with assms(1) show ?thesis by (simp add: single_flight_def)
next
  case TimerFired
  with assms(1) show ?thesis by (simp add: single_flight_def)
next
  case (Click a)
  show ?thesis
  proof (cases "isLoading (page s)")
    case True
    then have "handler a (page s) (page s) = (Rejected, page s)"
      by (rule loading_rejects_every_request)
    with assms(1) Click show ?thesis by (simp add: single_flight_def)
  next
    case False
    with assms(1) have empty: "in_flight s = []" by (auto simp add: single_flight_def)
    from handler_cases [of a "page s" "page s"] assms(1) Click empty show ?thesis
      by (auto simp add: single_flight_def)
  qed
next
  case (Answered updateError)
  with assms(1) show ?thesis
    by (cases "in_flight s") (auto simp add: single_flight_def)
next
  case (DbChange now payload)
  with assms(1) show ?thesis by (simp add: single_flight_def onDbChange_isLoading)
next
  case (PresenceSync presenceState)
  with assms(1) show ?thesis by (simp add: single_flight_def onPresenceSync_def)
next
  case (ChannelStatus status)
  with assms(1) show ?thesis by (simp add: single_flight_def onStatus_isLoading)
qed

lemma single_flight_run:
  assumes "single_flight s" and "Mount \<notin> set es"
  shows "single_flight (run es s)"
  using assms
proof (induction es arbitrary: s)
  case Nil
  then show ?case by simp
next
  case (Cons e es)
  from Cons.prems have "e \<noteq> Mount" and rest: "Mount \<notin> set es" by auto
  with Cons.prems(1) have "single_flight (step e s)" by (simp add: single_flight_step)
  with rest show ?case by (simp add: Cons.IH)
qed

section \<open>The claims\<close>

text \<open>
  Claim C1. Every store write issued by an admin transition handler keeps the record
  invariant, \<open>winner \<noteq> null\<close> exactly when \<open>state = DRAWN\<close>: whatever the cells and the
  random number, \<open>handleStartDraw\<close> writes nothing or \<open>{state: DRAWING, winner: null}\<close>,
  \<open>handleResetRaffle\<close> writes nothing or \<open>{state: WAITING, winner: null}\<close>, and
  \<open>handlePickWinner\<close> writes nothing or \<open>{state: DRAWN, winner: w}\<close> with a non-empty \<open>w\<close>.
\<close>

theorem handler_writes_keep_invariant:
  "list_all record_invariant (store_writes (fst (handleStartDraw rendered live))) \<and>
   list_all record_invariant (store_writes (fst (handlePickWinner rendered r live))) \<and>
   list_all record_invariant (store_writes (fst (handleResetRaffle rendered live))) \<and>
   store_writes (fst (handleStartDraw rendered live)) \<in> {[], [\<lparr>state = DRAWING, winner = None\<rparr>]} \<and>
   store_writes (fst (handleResetRaffle rendered live)) \<in> {[], [\<lparr>state = WAITING, winner = None\<rparr>]} \<and>
   (store_writes (fst (handlePickWinner rendered r live)) = [] \<or>
    (\<exists>w. w \<noteq> [] \<and>
       store_writes (fst (handlePickWinner rendered r live)) = [\<lparr>state = DRAWN, winner = Some w\<rparr>]))"
  by (simp add: handleStartDraw_def handlePickWinner_def handleResetRaffle_def store_writes_def
      record_invariant_def Let_def split: option.split)

text \<open>Each of the three writes does occur, and each satisfies the invariant.\<close>

theorem handler_writes_keep_invariant_witness:
  "store_writes (fst (handleStartDraw (page_with WAITING None []) (page_with WAITING None [])))
     = [\<lparr>state = DRAWING, winner = None\<rparr>] \<and>
   store_writes (fst (handlePickWinner (page_with DRAWING None [''p42'']) \<lparr>mant = 0, ex = 0\<rparr>
       (page_with DRAWING None [''p42''])))
     = [\<lparr>state = DRAWN, winner = Some ''p42''\<rparr>] \<and>
   store_writes (fst (handleResetRaffle (page_with DRAWN (Some ''p42'') []) (page_with DRAWN (Some ''p42'') [])))
     = [\<lparr>state = WAITING, winner = None\<rparr>] \<and>
   list_all record_invariant
     (store_writes (fst (handlePickWinner (page_with DRAWING None [''p42'']) \<lparr>mant = 0, ex = 0\<rparr>
       (page_with DRAWING None [''p42''])))) \<and>
   record_invariant \<lparr>state = DRAWN, winner = Some ''p42''\<rparr> \<and>
   record_invariant \<lparr>state = DRAWING, winner = None\<rparr> \<and>
   record_invariant \<lparr>state = WAITING, winner = None\<rparr>"
  using handler_writes_keep_invariant [of "page_with DRAWING None [''p42'']"
      "page_with DRAWING None [''p42'']" "\<lparr>mant = 0, ex = 0\<rparr>"]
  by (simp add: handleStartDraw_def handlePickWinner_def handleResetRaffle_def store_writes_def
      record_invariant_def page_with_simps pickRandomElement_def randomIndex_def round53_def)

text \<open>
  Claim C2. With a locally observed state of \<open>DRAWING\<close>, \<open>DRAWN\<close> or \<open>ERROR\<close>,
  \<open>handleStartDraw\<close> returns at its guard: the cells are untouched and nothing is written.
  With the state \<open>WAITING\<close> and no request in flight (\<open>isLoading\<close> false) it writes exactly
  \<open>{state: DRAWING, winner: null}\<close>.
\<close>

theorem handleStartDraw_guard:
  "(currentState rendered \<in> {DRAWING, DRAWN, ERROR} \<longrightarrow>
      handleStartDraw rendered live = (Rejected, live) \<and>
      store_writes (fst (handleStartDraw rendered live)) = []) \<and>
   (currentState rendered = WAITING \<and> \<not> isLoading rendered \<longrightarrow>
      handleStartDraw rendered live =
        (Issued \<lparr>state = DRAWING, winner = None\<rparr>, live\<lparr>isLoading := True, error := None\<rparr>) \<and>
      store_writes (fst (handleStartDraw rendered live)) = [\<lparr>state = DRAWING, winner = None\<rparr>])"
  by (auto simp add: handleStartDraw_def store_writes_def)

theorem handleStartDraw_guard_witness:
  "currentState (page_with DRAWING None [''a'']) \<in> {DRAWING, DRAWN, ERROR} \<and>
   currentState (page_with DRAWN (Some ''a'') [''a'']) \<in> {DRAWING, DRAWN, ERROR} \<and>
   currentState (page_with ERROR None []) \<in> {DRAWING, DRAWN, ERROR} \<and>
   store_writes (fst (handleStartDraw (page_with DRAWING None [''a''])
     (page_with DRAWING None [''a'']))) = [] \<and>
   store_writes (fst (handleStartDraw (page_with DRAWN (Some ''a'') [''a''])
     (page_with DRAWN (Some ''a'') [''a'']))) = [] \<and>
   store_writes (fst (handleStartDraw (page_with ERROR None []) (page_with ERROR None []))) = [] \<and>
   currentState (page_with WAITING None []) = WAITING \<and>
   \<not> isLoading (page_with WAITING None []) \<and>
   store_writes (fst (handleStartDraw (page_with WAITING None []) (page_with WAITING None [])))
     = [\<lparr>state = DRAWING, winner = None\<rparr>]"
  using handleStartDraw_guard [of "page_with DRAWING None [''a'']" "page_with DRAWING None [''a'']"]
    handleStartDraw_guard [of "page_with DRAWN (Some ''a'') [''a'']"
      "page_with DRAWN (Some ''a'') [''a'']"]
    handleStartDraw_guard [of "page_with ERROR None []" "page_with ERROR None []"]
    handleStartDraw_guard [of "page_with WAITING None []" "page_with WAITING None []"]
  by (simp add: page_with_simps store_writes_def)

text \<open>
  Claim C3, as amended. \<open>handlePickWinner\<close> returns at its guard, writing nothing, when the
  observed state is not \<open>DRAWING\<close>, when the derived \<open>userList\<close> is empty, or when a request
  is in flight (\<open>isLoading\<close>). With the state \<open>DRAWING\<close>, no request in flight and a
  non-empty list, it selects an identifier of the list, and a selected identifier that is
  a non-empty string is written as \<open>{state: DRAWN, winner: <selected id>}\<close>.
\<close>

theorem handlePickWinner_guard:
  "(isLoading rendered \<or> currentState rendered \<noteq> DRAWING \<or> userList rendered = [] \<longrightarrow>
      handlePickWinner rendered r live = (Rejected, live) \<and>
      store_writes (fst (handlePickWinner rendered r live)) = []) \<and>
   (\<not> isLoading rendered \<and> currentState rendered = DRAWING \<and> userList rendered \<noteq> [] \<and>
    Math_random_ok r \<longrightarrow>
      (\<exists>w. w \<in> set (userList rendered) \<and>
         pickRandomElement r (Some (userList rendered)) = Some w \<and>
         (w \<noteq> [] \<longrightarrow>
            fst (handlePickWinner rendered r live) = Issued \<lparr>state = DRAWN, winner = Some w\<rparr> \<and>
            store_writes (fst (handlePickWinner rendered r live)) =
              [\<lparr>state = DRAWN, winner = Some w\<rparr>])))"
proof (intro conjI impI)
  assume "isLoading rendered \<or> currentState rendered \<noteq> DRAWING \<or> userList rendered = []"
  then show "handlePickWinner rendered r live = (Rejected, live)"
    by (auto simp add: handlePickWinner_def)
  then show "store_writes (fst (handlePickWinner rendered r live)) = []"
    by (simp add: store_writes_def)
next
  assume "\<not> isLoading rendered \<and> currentState rendered = DRAWING \<and> userList rendered \<noteq> [] \<and>
    Math_random_ok r"
  then obtain w where "w \<in> set (userList rendered)"
    "pickRandomElement r (Some (userList rendered)) = Some w"
    "handlePickWinner rendered r live =
       (if w = []
        then (Aborted, live\<lparr>isLoading := True, error := None\<rparr>
                \<lparr>error := Some ''No users connected to pick a winner from.'', isLoading := False\<rparr>)
        else (Issued \<lparr>state = DRAWN, winner = Some w\<rparr>, live\<lparr>isLoading := True, error := None\<rparr>))"
    using handlePickWinner_picks [of rendered r live] by blast
  then show "\<exists>w. w \<in> set (userList rendered) \<and>
         pickRandomElement r (Some (userList rendered)) = Some w \<and>
         (w \<noteq> [] \<longrightarrow>
            fst (handlePickWinner rendered r live) = Issued \<lparr>state = DRAWN, winner = Some w\<rparr> \<and>
            store_writes (fst (handlePickWinner rendered r live)) =
              [\<lparr>state = DRAWN, winner = Some w\<rparr>])"
    by (intro exI [of _ w]) (simp add: store_writes_def)
qed

theorem handlePickWinner_guard_witness:
  "\<not> isLoading (page_with DRAWING None [''a'', ''b'', ''c'']) \<and>
   currentState (page_with DRAWING None [''a'', ''b'', ''c'']) = DRAWING \<and>
   userList (page_with DRAWING None [''a'', ''b'', ''c'']) \<noteq> [] \<and>
   Math_random_ok \<lparr>mant = 1, ex = 1\<rparr> \<and>
   pickRandomElement \<lparr>mant = 1, ex = 1\<rparr> (Some (userList (page_with DRAWING None [''a'', ''b'', ''c''])))
     = Some ''b'' \<and>
   ''b'' \<noteq> [] \<and>
   store_writes (fst (handlePickWinner (page_with DRAWING None [''a'', ''b'', ''c''])
       \<lparr>mant = 1, ex = 1\<rparr> (page_with DRAWING None [''a'', ''b'', ''c'']))) =
     [\<lparr>state = DRAWN, winner = Some ''b''\<rparr>] \<and>
   currentState (page_with WAITING None [''a'']) \<noteq> DRAWING \<and>
   store_writes (fst (handlePickWinner (page_with WAITING None [''a'']) \<lparr>mant = 1, ex = 1\<rparr>
       (page_with WAITING None [''a'']))) = [] \<and>
   userList (page_with DRAWING None []) = [] \<and>
   store_writes (fst (handlePickWinner (page_with DRAWING None []) \<lparr>mant = 1, ex = 1\<rparr>
       (page_with DRAWING None []))) = [] \<and>
   isLoading ((page_with DRAWING None [''a''])\<lparr>isLoading := True\<rparr>) \<and>
   store_writes (fst (handlePickWinner ((page_with DRAWING None [''a''])\<lparr>isLoading := True\<rparr>)
       \<lparr>mant = 1, ex = 1\<rparr> (page_with DRAWING None [''a'']))) = []"
proof -
  have pick: "pickRandomElement \<lparr>mant = 1, ex = 1\<rparr> (Some [''a'', ''b'', ''c'']) = Some ''b''"
    by (simp add: pickRandomElement_def randomIndex_def round53_def)
  have ok: "Math_random_ok \<lparr>mant = 1, ex = 1\<rparr>"
    by (simp add: Math_random_ok_def)
  show ?thesis
    using handlePickWinner_guard [of "page_with DRAWING None [''a'', ''b'', ''c'']"
        "\<lparr>mant = 1, ex = 1\<rparr>" "page_with DRAWING None [''a'', ''b'', ''c'']"]
      handlePickWinner_guard [of "page_with WAITING None [''a'']" "\<lparr>mant = 1, ex = 1\<rparr>"
        "page_with WAITING None [''a'']"]
      handlePickWinner_guard [of "page_with DRAWING None []" "\<lparr>mant = 1, ex = 1\<rparr>"
        "page_with DRAWING None []"]
      handlePickWinner_guard [of "(page_with DRAWING None [''a''])\<lparr>isLoading := True\<rparr>"
        "\<lparr>mant = 1, ex = 1\<rparr>" "page_with DRAWING None [''a'']"]
      pick ok
    by (simp add: page_with_simps store_writes_def)
qed

text \<open>
  The claim as first stated leaves the loading flag out of the guard: with the state
  \<open>DRAWING\<close> and the user \<open>"a"\<close> present, nothing is written while \<open>isLoading\<close> is true.
\<close>

theorem handlePickWinner_guard_counterexample:
  "currentState ((page_with DRAWING None [''a''])\<lparr>isLoading := True\<rparr>) = DRAWING \<and>
   userList ((page_with DRAWING None [''a''])\<lparr>isLoading := True\<rparr>) = [''a''] \<and>
   Math_random_ok \<lparr>mant = 0, ex = 0\<rparr> \<and>
   handlePickWinner ((page_with DRAWING None [''a''])\<lparr>isLoading := True\<rparr>)
       \<lparr>mant = 0, ex = 0\<rparr> ((page_with DRAWING None [''a''])\<lparr>isLoading := True\<rparr>) =
     (Rejected, (page_with DRAWING None [''a''])\<lparr>isLoading := True\<rparr>) \<and>
   store_writes (fst (handlePickWinner ((page_with DRAWING None [''a''])\<lparr>isLoading := True\<rparr>)
       \<lparr>mant = 0, ex = 0\<rparr> ((page_with DRAWING None [''a''])\<lparr>isLoading := True\<rparr>))) = []"
  by (simp add: page_with_def AdminPage_mounted_def currentState_def userList_def
      handlePickWinner_def store_writes_def Math_random_ok_def)

text \<open>
  Claim C4. The claim is that, the guard passed, the pick is an identifier of the captured
  list and the branch "no users connected" cannot be reached. The first half holds: the
  list tested and the list indexed are the one \<open>userList\<close> of the handler's render, and
  a presence sync in between changes nothing (\<open>handlePickWinner_snapshot\<close> above). The
  second half fails: the handler tests \<open>!winnerId\<close>, which is also true of the empty
  string. With the users \<open>"a"\<close> and \<open>""\<close> present and \<open>Math.random() = 0.5\<close> the guard
  passes, the second user is selected from the captured list, and the handler ends with
  "No users connected to pick a winner from." and no write, although it counted two
  users.
\<close>

theorem handlePickWinner_no_users_with_two_present:
  "\<not> isLoading (page_with DRAWING None [''a'', '''']) \<and>
   currentState (page_with DRAWING None [''a'', '''']) = DRAWING \<and>
   length (userList (page_with DRAWING None [''a'', ''''])) = 2 \<and>
   Math_random_ok \<lparr>mant = 1, ex = 1\<rparr> \<and>
   pickRandomElement \<lparr>mant = 1, ex = 1\<rparr> (Some (userList (page_with DRAWING None [''a'', '''']))) =
     Some '''' \<and>
   fst (handlePickWinner (page_with DRAWING None [''a'', '''']) \<lparr>mant = 1, ex = 1\<rparr>
     (page_with DRAWING None [''a'', ''''])) = Aborted \<and>
   error (snd (handlePickWinner (page_with DRAWING None [''a'', '''']) \<lparr>mant = 1, ex = 1\<rparr>
     (page_with DRAWING None [''a'', '''']))) = Some ''No users connected to pick a winner from.'' \<and>
   store_writes (fst (handlePickWinner (page_with DRAWING None [''a'', '''']) \<lparr>mant = 1, ex = 1\<rparr>
     (page_with DRAWING None [''a'', '''']))) = []"
  by (simp add: page_with_def AdminPage_mounted_def currentState_def userList_def
      handlePickWinner_def Math_random_ok_def pickRandomElement_def randomIndex_def round53_def
      store_writes_def)

text \<open>
  At that input the selected identifier is an element of the captured list, and still the
  outcome is the error branch and not a write.
\<close>

theorem handlePickWinner_no_users_with_two_present_witness:
  "'''' \<in> set (userList (page_with DRAWING None [''a'', ''''])) \<and>
   pickRandomElement \<lparr>mant = 1, ex = 1\<rparr> (Some (userList (page_with DRAWING None [''a'', '''']))) =
     Some '''' \<and>
   fst (handlePickWinner (page_with DRAWING None [''a'', '''']) \<lparr>mant = 1, ex = 1\<rparr>
     (page_with DRAWING None [''a'', ''''])) = Aborted \<and>
   fst (handlePickWinner (page_with DRAWING None [''a'', '''']) \<lparr>mant = 1, ex = 1\<rparr>
     (page_with DRAWING None [''a'', ''''])) \<noteq> Issued \<lparr>state = DRAWN, winner = Some ''''\<rparr>"
  using handlePickWinner_no_users_with_two_present
  by (simp add: page_with_simps)

text \<open>
  Claim C5. For every non-empty candidate list \<open>S\<close> (and every value \<open>Math.random\<close> can
  return), \<open>pickRandomElement(S)\<close> is an element of \<open>S\<close>.
\<close>

theorem pickRandomElement_member:
  assumes "Math_random_ok r" and "1 \<le> length S"
  shows "\<exists>x. pickRandomElement r (Some S) = Some x \<and> x \<in> set S"
proof -
  from assms(2) have ne: "S \<noteq> []" by auto
  then have "randomIndex r (length S) < length S"
    using assms(1) by (simp add: randomIndex_in_bounds)
  then have "S ! randomIndex r (length S) \<in> set S" by (rule nth_mem)
  with pickRandomElement_reads [OF assms(1) ne] show ?thesis by simp
qed

theorem pickRandomElement_member_witness:
  "Math_random_ok \<lparr>mant = 2 ^ 53 - 1, ex = 53\<rparr> \<and> 1 \<le> length [''a'', ''b'', ''c''] \<and>
   pickRandomElement \<lparr>mant = 2 ^ 53 - 1, ex = 53\<rparr> (Some [''a'', ''b'', ''c'']) = Some ''c'' \<and>
   (\<exists>x. pickRandomElement \<lparr>mant = 2 ^ 53 - 1, ex = 53\<rparr> (Some [''a'', ''b'', ''c'']) = Some x \<and>
        x \<in> set [''a'', ''b'', ''c''])"
proof -
  have ok: "Math_random_ok \<lparr>mant = 2 ^ 53 - 1, ex = 53\<rparr>"
    by (simp add: Math_random_ok_def)
  have len: "1 \<le> length [''a'', ''b'', ''c'']" by simp
  have pick: "pickRandomElement \<lparr>mant = 2 ^ 53 - 1, ex = 53\<rparr> (Some [''a'', ''b'', ''c'']) = Some ''c''"
    by (simp add: pickRandomElement_def randomIndex_def round53_def bit_length.simps)
  from ok len pick pickRandomElement_member [OF ok len] show ?thesis by blast
qed

text \<open>
  Claim C6. With no request in flight, \<open>handleResetRaffle\<close> writes exactly
  \<open>{state: WAITING, winner: null}\<close>; the observed state does not occur in the statement,
  so the patch is the same from \<open>WAITING\<close>, \<open>DRAWING\<close>, \<open>DRAWN\<close> and \<open>ERROR\<close>.
\<close>

theorem handleResetRaffle_any_state:
  assumes "\<not> isLoading rendered"
  shows "handleResetRaffle rendered live =
           (Issued \<lparr>state = WAITING, winner = None\<rparr>, live\<lparr>isLoading := True, error := None\<rparr>) \<and>
         store_writes (fst (handleResetRaffle rendered live)) = [\<lparr>state = WAITING, winner = None\<rparr>]"
  using assms by (simp add: handleResetRaffle_def store_writes_def)

text \<open>One page for each of the four states.\<close>

theorem handleResetRaffle_any_state_witness:
  "map (\<lambda>p. currentState p) 
     [page_with WAITING None [], page_with DRAWING None [''a''],
      page_with DRAWN (Some ''a'') [''a''], page_with ERROR None []] =
     [WAITING, DRAWING, DRAWN, ERROR] \<and>
   map (\<lambda>p. isLoading p)
     [page_with WAITING None [], page_with DRAWING None [''a''],
      page_with DRAWN (Some ''a'') [''a''], page_with ERROR None []] =
     [False, False, False, False] \<and>
   map (\<lambda>p. store_writes (fst (handleResetRaffle p p)))
     [page_with WAITING None [], page_with DRAWING None [''a''],
      page_with DRAWN (Some ''a'') [''a''], page_with ERROR None []] =
     [[\<lparr>state = WAITING, winner = None\<rparr>], [\<lparr>state = WAITING, winner = None\<rparr>],
      [\<lparr>state = WAITING, winner = None\<rparr>], [\<lparr>state = WAITING, winner = None\<rparr>]]"
  using handleResetRaffle_any_state [of "page_with WAITING None []" "page_with WAITING None []"]
    handleResetRaffle_any_state [of "page_with DRAWING None [''a'']" "page_with DRAWING None [''a'']"]
    handleResetRaffle_any_state [of "page_with DRAWN (Some ''a'') [''a'']"
      "page_with DRAWN (Some ''a'') [''a'']"]
    handleResetRaffle_any_state [of "page_with ERROR None []" "page_with ERROR None []"]
  by (simp add: page_with_simps store_writes_def)

text \<open>
  Claim C7, as amended. If the initial fetch fails (the answer carries an error, or no
  row), the admin view becomes the local \<open>ERROR\<close> placeholder and no write is issued.
  Setup stops there: no channel is created and no listener registered, so a later
  change-event does not reach the page and leaves it as it is.
\<close>

theorem failed_fetch_stops_setup:
  assumes "data resp = None \<or> fetchError resp \<noteq> None"
  shows "raffleData (page (run [Mount, Fetched now resp] session_mounted)) =
           Some (error_placeholder now) \<and>
         currentState (page (run [Mount, Fetched now resp] session_mounted)) = ERROR \<and>
         in_flight (run [Mount, Fetched now resp] session_mounted) = [] \<and>
         channelRef (page (run [Mount, Fetched now resp] session_mounted)) = None \<and>
         step (DbChange now' payload) (run [Mount, Fetched now resp] session_mounted) =
           run [Mount, Fetched now resp] session_mounted"
proof -
  obtain msg where
    "setupAdminSubscription_resumed now resp (setupAdminSubscription AdminPage_mounted) =
       (setupAdminSubscription AdminPage_mounted)
         \<lparr>error := Some msg, raffleData := Some (error_placeholder now), isLoading := False\<rparr>"
    using setup_failed_page [OF assms] by blast
  then show ?thesis
    by (simp add: session_mounted_def AdminPage_mounted_def setupAdminSubscription_def
        currentState_def error_placeholder_def)
qed

theorem failed_fetch_stops_setup_witness:
  "data \<lparr>data = None, fetchError = None\<rparr> = None \<and>
   page (run [Mount, Fetched ''t0'' \<lparr>data = None, fetchError = None\<rparr>] session_mounted) =
     \<lparr>raffleData = Some \<lparr>state = ERROR, winner = None, id' = 1, created_at = ''t0''\<rparr>,
      connectedUsers = [], isLoading = False,
      error = Some ''Failed to fetch initial state: No raffle data found for ID 1.'',
      channelRef = None\<rparr> \<and>
   in_flight (run [Mount, Fetched ''t0'' \<lparr>data = None, fetchError = None\<rparr>] session_mounted) = [] \<and>
   step (DbChange ''t1'' (UPDATE \<lparr>state = WAITING, winner = None, id' = 1, created_at = ''c''\<rparr>))
     (run [Mount, Fetched ''t0'' \<lparr>data = None, fetchError = None\<rparr>] session_mounted) =
     run [Mount, Fetched ''t0'' \<lparr>data = None, fetchError = None\<rparr>] session_mounted"
proof -
  have pg: "page (run [Mount, Fetched ''t0'' \<lparr>data = None, fetchError = None\<rparr>] session_mounted) =
     \<lparr>raffleData = Some \<lparr>state = ERROR, winner = None, id' = 1, created_at = ''t0''\<rparr>,
      connectedUsers = [], isLoading = False,
      error = Some ''Failed to fetch initial state: No raffle data found for ID 1.'',
      channelRef = None\<rparr>"
    by (simp add: session_mounted_def AdminPage_mounted_def setupAdminSubscription_def
        setupAdminSubscription_resumed_def setup_catch_def error_placeholder_def
        error_message_def RAFFLE_ID_def)
  have hyp: "data \<lparr>data = None, fetchError = None\<rparr> = None \<or>
      fetchError \<lparr>data = None, fetchError = None\<rparr> \<noteq> None" by simp
  from failed_fetch_stops_setup [OF hyp, of "''t0''" "''t1''"
      "UPDATE \<lparr>state = WAITING, winner = None, id' = 1, created_at = ''c''\<rparr>"] pg hyp
  show ?thesis by simp
qed

text \<open>
  The claim as first stated has the admin apply later change-events. After a failed
  fetch an \<open>UPDATE\<close> to \<open>DRAWING\<close> is not applied, the view stays at \<open>ERROR\<close>; the listener,
  had it been registered, would have shown \<open>DRAWING\<close>.
\<close>

theorem failed_fetch_counterexample:
  "currentState (page (run
     [Mount,
      Fetched ''t0'' \<lparr>data = None, fetchError = Some (Some ''Failed to fetch'')\<rparr>,
      ChannelStatus ''SUBSCRIBED'',
      DbChange ''t1'' (UPDATE \<lparr>state = DRAWING, winner = None, id' = 1, created_at = ''c''\<rparr>)]
     session_mounted)) = ERROR \<and>
   currentState (onDbChange ''t1''
     (UPDATE \<lparr>state = DRAWING, winner = None, id' = 1, created_at = ''c''\<rparr>)
     (page (run
       [Mount, Fetched ''t0'' \<lparr>data = None, fetchError = Some (Some ''Failed to fetch'')\<rparr>]
       session_mounted))) = DRAWING"
  by (simp add: session_mounted_def AdminPage_mounted_def setupAdminSubscription_def
      setupAdminSubscription_resumed_def setup_catch_def error_placeholder_def currentState_def
      onDbChange_def)

text \<open>
  Claim C8. A delivered change-event replaces both local fields with the payload's
  values, on the client (\<open>state\<close> and \<open>winner\<close>, the \<open>userId\<close> untouched) and on the admin
  page (the whole row). Delivering \<open>{state: DRAWN, winner: "p42"}\<close> to a view at
  \<open>{state: DRAWING, winner: null}\<close> gives one observable view, exactly that pair; no view
  with \<open>DRAWN\<close> and no winner is among the observable ones.
\<close>

theorem wholesale_apply:
  "state (Home_onDbChange new h) = state new \<and>
   winner (Home_onDbChange new h) = winner new \<and>
   userId (Home_onDbChange new h) = userId h \<and>
   raffleData (onDbChange now (UPDATE new) a) = Some new \<and>
   Home_views [\<lparr>state = DRAWN, winner = Some ''p42'', id' = i, created_at = c\<rparr>]
     \<lparr>state = DRAWING, winner = None, userId = uid\<rparr> =
     [\<lparr>state = DRAWN, winner = Some ''p42'', userId = uid\<rparr>] \<and>
   map (\<lambda>v. (currentState v, currentWinner v))
     (AdminPage_views [(now, UPDATE \<lparr>state = DRAWN, winner = Some ''p42'', id' = i, created_at = c\<rparr>)]
       (a\<lparr>raffleData := Some \<lparr>state = DRAWING, winner = None, id' = i, created_at = c\<rparr>\<rparr>)) =
     [(DRAWN, Some ''p42'')]"
  by (simp add: Home_onDbChange_def setState_def setWinner_def onDbChange_def currentState_def
      currentWinner_def)

text \<open>
  Claim C9. The claim is that at most one admin-issued write is ever in flight. The
  session below breaks it: the initial fetch fails, which turns loading off and still
  starts the \<open>finally\<close> block's timer; a reset is clicked and awaits the store with
  loading on; the timer fires and turns loading off; a second reset is clicked and is not
  rejected. Two updates are then in flight. (The guard itself is sound, see
  \<open>loading_rejects_every_request\<close> and \<open>single_flight_run\<close> above.)
\<close>

theorem two_updates_in_flight:
  "in_flight (run
     [Mount,
      Fetched ''t0'' \<lparr>data = None, fetchError = Some (Some ''Failed to fetch'')\<rparr>,
      Click ResetRaffle,
      TimerFired,
      Click ResetRaffle]
     session_mounted) =
     [(ResetRaffle, \<lparr>state = WAITING, winner = None\<rparr>),
      (ResetRaffle, \<lparr>state = WAITING, winner = None\<rparr>)] \<and>
   isLoading (page (run
     [Mount,
      Fetched ''t0'' \<lparr>data = None, fetchError = Some (Some ''Failed to fetch'')\<rparr>,
      Click ResetRaffle]
     session_mounted)) \<and>
   \<not> isLoading (page (run
     [Mount,
      Fetched ''t0'' \<lparr>data = None, fetchError = Some (Some ''Failed to fetch'')\<rparr>,
      Click ResetRaffle,
      TimerFired]
     session_mounted))"
  by (simp add: session_mounted_def AdminPage_mounted_def setupAdminSubscription_def
      setupAdminSubscription_resumed_def setup_catch_def handleResetRaffle_def)

text \<open>
  Claim C10. \<open>pickRandomElement\<close> is total: a \<open>null\<close>/\<open>undefined\<close> or empty array gives
  \<open>undefined\<close> before any element is read, and on a non-empty array the one index it
  reads, \<open>Math.floor(Math.random() * arr.length)\<close>, lies inside the array.
\<close>

theorem pickRandomElement_total:
  "pickRandomElement r (None :: 'a list option) = None \<and>
   pickRandomElement r (Some ([] :: 'a list)) = None \<and>
   (Math_random_ok r \<and> (xs :: 'a list) \<noteq> [] \<longrightarrow>
      randomIndex r (length xs) < length xs \<and>
      pickRandomElement r (Some xs) = Some (xs ! randomIndex r (length xs)))"
  using randomIndex_in_bounds [of r "length xs"] pickRandomElement_reads [of r xs]
  by (simp add: pickRandomElement_def)

theorem pickRandomElement_total_witness:
  "Math_random_ok \<lparr>mant = 1, ex = 1\<rparr> \<and> [10, 20, 30 :: int] \<noteq> [] \<and>
   randomIndex \<lparr>mant = 1, ex = 1\<rparr> (length [10, 20, 30 :: int]) = 1 \<and>
   randomIndex \<lparr>mant = 1, ex = 1\<rparr> (length [10, 20, 30 :: int]) < length [10, 20, 30 :: int] \<and>
   pickRandomElement \<lparr>mant = 1, ex = 1\<rparr> (Some [10, 20, 30 :: int]) = Some 20 \<and>
   pickRandomElement \<lparr>mant = 1, ex = 1\<rparr> (None :: int list option) = None \<and>
   pickRandomElement \<lparr>mant = 1, ex = 1\<rparr> (Some ([] :: int list)) = None"
proof -
  have ok: "Math_random_ok \<lparr>mant = 1, ex = 1\<rparr>"
    by (simp add: Math_random_ok_def)
  have idx: "randomIndex \<lparr>mant = 1, ex = 1\<rparr> (length [10, 20, 30 :: int]) = 1"
    by (simp add: randomIndex_def round53_def)
  from ok idx pickRandomElement_total [of "\<lparr>mant = 1, ex = 1\<rparr>" "[10, 20, 30 :: int]"]
  show ?thesis by simp
qed

end
